theory Spec2Isabelle
  imports Main "HOL-Library.Word" "HOL-Library.Sublist"
begin

section \<open>Data model of \<open>polar_h10.py\<close>\<close>

text \<open>
  The class \<open>PolarH10\<close> wraps a BLE client library. The library itself is the
  environment: every call into it is recorded as an \<open>event\<close>, and what the library
  answers is an explicit argument (\<open>reply\<close>) of the operation that awaits the call.
\<close>

type_synonym byte = "8 word"

text \<open>\<open>BLEDevice\<close>: the address and the advertised name, which may be absent.\<close>

record ble_device =
  address :: string
  name :: "string option"

text \<open>
  \<open>BleakClient\<close>: the device it was built for and what its property
  \<open>is_connected\<close> currently reads.
\<close>

record bleak_client =
  target :: "ble_device option"
  is_connected :: bool

text \<open>
  The exceptions (all subclasses of Python's \<open>Exception\<close>) that can travel through
  the code: the \<open>ConnectionError\<close> raised by the guards, \<open>struct.error\<close> from
  \<open>struct.pack\<close>, \<open>AttributeError\<close> from a method call on \<open>None\<close>, any exception of
  the BLE library, and any exception of the registered callback.
\<close>

datatype error =
    ConnectionError string
  | StructError
  | AttributeError
  | BleakError string
  | CallbackError string

datatype level = DEBUG | INFO | WARNING | ERROR

text \<open>
  The observable effects, in the order the code issues them. A transport event records
  that the call was made; whether it succeeded is in the reply. \<open>Log\<close> carries the
  literal part of the message (interpolated values are left out), \<open>Sleep\<close> the delay in
  milliseconds, \<open>SinkCall\<close> the bytes handed to the registered callback.
\<close>

datatype event =
    Discover
  | ClientConnect
  | ClientDisconnect
  | StartNotify string
  | StopNotify string
  | WriteGattChar string "byte list"
  | Sleep nat
  | Log level string
  | SinkCall "byte list"

text \<open>The instance attributes set by \<open>__init__\<close>.\<close>

record polar_h10 =
  device :: "ble_device option"
  client :: "bleak_client option"
  recording :: bool
  data_buffer :: "byte list"
  notification_callback :: "(byte list \<Rightarrow> error option) option"

text \<open>
  The registered callback is code of the caller: it is handed the bytes of one
  notification and either returns (\<open>None\<close>) or raises (\<open>Some e\<close>).
\<close>

text \<open>
  What the event loop does while the caller is suspended at one \<open>await\<close>: the
  notification chunks it dispatches to the handler meanwhile (\<open>arrived\<close>), what
  \<open>is_connected\<close> reads once the call is over (\<open>link\<close>), and whether the awaited call
  returns a value or raises (\<open>outcome\<close>).
\<close>

record 'a reply =
  arrived :: "byte list list"
  link :: bool
  outcome :: "error + 'a"

subsection \<open>Class constants\<close>

definition PMD_SERVICE :: string where
  "PMD_SERVICE = ''FB005C80-02E7-F387-1CAD-8ACD2D8DF0C8''"

definition PMD_CONTROL :: string where
  "PMD_CONTROL = ''FB005C81-02E7-F387-1CAD-8ACD2D8DF0C8''"

definition PMD_DATA :: string where
  "PMD_DATA = ''FB005C82-02E7-F387-1CAD-8ACD2D8DF0C8''"

definition REQUEST_MEASUREMENT_SETTINGS :: int where
  "REQUEST_MEASUREMENT_SETTINGS = 0x01"

definition START_MEASUREMENT :: int where
  "START_MEASUREMENT = 0x02"

definition STOP_MEASUREMENT :: int where
  "STOP_MEASUREMENT = 0x03"

definition ECG_MEASUREMENT :: int where
  "ECG_MEASUREMENT = 0x00"

definition PPG_MEASUREMENT :: int where
  "PPG_MEASUREMENT = 0x01"

definition ACC_MEASUREMENT :: int where
  "ACC_MEASUREMENT = 0x02"

definition HR_MEASUREMENT :: int where
  "HR_MEASUREMENT = 0x03"

definition commands :: "int set" where
  "commands = {REQUEST_MEASUREMENT_SETTINGS, START_MEASUREMENT, STOP_MEASUREMENT}"

definition measurement_types :: "int set" where
  "measurement_types = {ECG_MEASUREMENT, PPG_MEASUREMENT, ACC_MEASUREMENT, HR_MEASUREMENT}"

section \<open>Control flow: state, exceptions, effects\<close>

text \<open>
  A method is a function from the object's state to its outcome (\<open>Inl\<close> an exception
  that propagates, \<open>Inr\<close> the returned value), the state it leaves (an exception rolls
  nothing back) and the effects it issued, in order.
\<close>

type_synonym 'a io = "polar_h10 \<Rightarrow> (error + 'a) \<times> polar_h10 \<times> event list"

definition result_of :: "(error + 'a) \<times> polar_h10 \<times> event list \<Rightarrow> error + 'a" where
  "result_of x = fst x"

definition self_of :: "(error + 'a) \<times> polar_h10 \<times> event list \<Rightarrow> polar_h10" where
  "self_of x = fst (snd x)"

definition effects_of :: "(error + 'a) \<times> polar_h10 \<times> event list \<Rightarrow> event list" where
  "effects_of x = snd (snd x)"

definition io_return :: "'a \<Rightarrow> 'a io" where
  "io_return v = (\<lambda>self. (Inr v, self, []))"

definition io_raise :: "error \<Rightarrow> 'a io" where
  "io_raise e = (\<lambda>self. (Inl e, self, []))"

definition io_bind :: "'a io \<Rightarrow> ('a \<Rightarrow> 'b io) \<Rightarrow> 'b io" where
  "io_bind m f = (\<lambda>self.
     case m self of
       (Inl e, self1, fx1) \<Rightarrow> (Inl e, self1, fx1)
     | (Inr v, self1, fx1) \<Rightarrow>
         (case f v self1 of (r, self2, fx2) \<Rightarrow> (r, self2, fx1 @ fx2)))"

definition io_then :: "'a io \<Rightarrow> 'b io \<Rightarrow> 'b io" where
  "io_then m n = io_bind m (\<lambda>_. n)"

text \<open>\<open>try: m except Exception as e: h e\<close>\<close>

definition io_try :: "'a io \<Rightarrow> (error \<Rightarrow> 'a io) \<Rightarrow> 'a io" where
  "io_try m h = (\<lambda>self.
     case m self of
       (Inl e, self1, fx1) \<Rightarrow>
         (case h e self1 of (r, self2, fx2) \<Rightarrow> (r, self2, fx1 @ fx2))
     | (Inr v, self1, fx1) \<Rightarrow> (Inr v, self1, fx1))"

definition io_get :: "polar_h10 io" where
  "io_get = (\<lambda>self. (Inr self, self, []))"

definition io_modify :: "(polar_h10 \<Rightarrow> polar_h10) \<Rightarrow> unit io" where
  "io_modify f = (\<lambda>self. (Inr (), f self, []))"

definition io_emit :: "event \<Rightarrow> unit io" where
  "io_emit ev = (\<lambda>self. (Inr (), self, [ev]))"

definition logger :: "level \<Rightarrow> string \<Rightarrow> unit io" where
  "logger lv msg = io_emit (Log lv msg)"

text \<open>Calling the registered callback: it returns, or it raises.\<close>

definition call_sink :: "(byte list \<Rightarrow> error option) \<Rightarrow> byte list \<Rightarrow> unit io" where
  "call_sink callback data = (\<lambda>self.
     (case callback data of None \<Rightarrow> Inr () | Some e \<Rightarrow> Inl e, self, [SinkCall data]))"

section \<open>The methods of \<open>PolarH10\<close>\<close>

definition init :: polar_h10 where
  "init = \<lparr>device = None, client = None, recording = False, data_buffer = [],
           notification_callback = None\<rparr>"

definition notification_handler :: "int \<Rightarrow> byte list \<Rightarrow> unit io" where
  "notification_handler sender data =
     io_then (logger DEBUG ''Received data: '')
    (io_then (io_modify (\<lambda>self. self\<lparr>data_buffer := data_buffer self @ data\<rparr>))
    (io_bind io_get (\<lambda>self.
       case notification_callback self of
         None \<Rightarrow> io_return ()
       | Some callback \<Rightarrow> call_sink callback data)))"

text \<open>
  The event loop dispatching notification chunks to the handler, one after the other.
  An exception of the handler (that is, of the callback) ends that dispatch only: the
  loop goes on with the next chunk.
\<close>

fun deliver :: "byte list list \<Rightarrow> polar_h10 \<Rightarrow> polar_h10 \<times> event list" where
  "deliver [] self = (self, [])"
| "deliver (chunk # chunks) self =
     (case notification_handler 0 chunk self of
        (r, self1, fx1) \<Rightarrow>
          (case deliver chunks self1 of (self2, fx2) \<Rightarrow> (self2, fx1 @ fx2)))"

definition set_link :: "bool \<Rightarrow> polar_h10 \<Rightarrow> polar_h10" where
  "set_link up self =
     self\<lparr>client := map_option (\<lambda>c. c\<lparr>is_connected := up\<rparr>) (client self)\<rparr>"

text \<open>
  \<open>await call\<close>: the call is issued, the caller is suspended, the event loop runs the
  handler on what arrives, and the call returns or raises.
\<close>

definition await :: "event \<Rightarrow> 'a reply \<Rightarrow> 'a io" where
  "await call r = (\<lambda>self.
     case deliver (arrived r) self of
       (self1, fx) \<Rightarrow> (outcome r, set_link (link r) self1, call # fx))"

text \<open>Python's \<open>sub in s\<close> on strings.\<close>

fun str_contains :: "string \<Rightarrow> string \<Rightarrow> bool" where
  "str_contains sub [] = (sub = [])"
| "str_contains sub (c # cs) = (prefix sub (c # cs) \<or> str_contains sub cs)"

text \<open>\<open>device.name and "Polar H10" in device.name\<close>: \<open>None\<close> and \<open>""\<close> are falsy.\<close>

definition is_polar :: "ble_device \<Rightarrow> bool" where
  "is_polar d =
     (case name d of
        None \<Rightarrow> False
      | Some n \<Rightarrow> n \<noteq> [] \<and> str_contains ''Polar H10'' n)"

text \<open>The \<open>for\<close> loop of \<open>scan_for_device\<close>: the first device that passes the test.\<close>

fun find_polar :: "ble_device list \<Rightarrow> ble_device option" where
  "find_polar [] = None"
| "find_polar (d # ds) = (if is_polar d then Some d else find_polar ds)"

definition scan_for_device :: "ble_device list reply \<Rightarrow> bool io" where
  "scan_for_device scan =
     io_then (logger INFO ''Scanning for Polar H10...'')
    (io_bind (await Discover scan) (\<lambda>devices.
       case find_polar devices of
         Some d \<Rightarrow>
           io_then (io_modify (\<lambda>self. self\<lparr>device := Some d\<rparr>))
          (io_then (logger INFO ''Found Polar H10: '')
                   (io_return True))
       | None \<Rightarrow>
           io_then (logger WARNING ''No Polar H10 device found'')
                   (io_return False)))"

definition BleakClient :: "ble_device option \<Rightarrow> bleak_client" where
  "BleakClient d = \<lparr>target = d, is_connected = False\<rparr>"

text \<open>
  \<open>connect\<close>. The scan runs before the \<open>try\<close>, so an exception of the scan propagates;
  \<open>success\<close> is \<open>True\<close> when a device was cached already and no scan is made.
\<close>

definition connect :: "ble_device list reply \<Rightarrow> unit reply \<Rightarrow> unit reply \<Rightarrow> bool io" where
  "connect scan rc rn =
     io_bind io_get (\<lambda>self0.
     io_bind (if device self0 = None then scan_for_device scan else io_return True)
       (\<lambda>success.
     if \<not> success then io_return False
     else
       io_try
         (io_bind io_get (\<lambda>self.
          io_then (io_modify (\<lambda>s. s\<lparr>client := Some (BleakClient (device self))\<rparr>))
         (io_then (await ClientConnect rc)
         (io_then (logger INFO ''Connected to Polar H10'')
         (io_then (await (StartNotify PMD_DATA) rn)
         (io_then (logger INFO ''Enabled PMD data notifications'')
                  (io_return True)))))))
         (\<lambda>e. io_then (logger ERROR ''Error connecting to device: '')
                       (io_return False))))"

text \<open>\<open>self.client and self.client.is_connected\<close>\<close>

definition connected :: "polar_h10 \<Rightarrow> bool" where
  "connected self = (case client self of None \<Rightarrow> False | Some c \<Rightarrow> is_connected c)"

definition disconnect :: "unit reply \<Rightarrow> unit reply \<Rightarrow> unit io" where
  "disconnect rs rd =
     io_bind io_get (\<lambda>self.
     if connected self then
       io_try
         (io_then (await (StopNotify PMD_DATA) rs)
         (io_then (await ClientDisconnect rd)
                  (logger INFO ''Disconnected from Polar H10'')))
         (\<lambda>e. logger ERROR ''Error during disconnect: '')
     else io_return ())"

text \<open>\<open>struct.pack("<BB", a, b)\<close>: two unsigned bytes, or \<open>struct.error\<close> out of range.\<close>

definition struct_pack_BB :: "int \<Rightarrow> int \<Rightarrow> error + byte list" where
  "struct_pack_BB a b =
     (if 0 \<le> a \<and> a \<le> 255 \<and> 0 \<le> b \<and> b \<le> 255
      then Inr [word_of_int a, word_of_int b]
      else Inl StructError)"

definition send_command :: "int \<Rightarrow> int \<Rightarrow> unit reply \<Rightarrow> unit io" where
  "send_command command measurement_type r =
     (case struct_pack_BB command measurement_type of
        Inl e \<Rightarrow> io_raise e
      | Inr command_bytes \<Rightarrow>
          io_bind io_get (\<lambda>self.
            case client self of
              None \<Rightarrow> io_raise AttributeError
            | Some c \<Rightarrow> await (WriteGattChar PMD_CONTROL command_bytes) r))"

definition start_recording :: "int \<Rightarrow> unit reply \<Rightarrow> unit reply \<Rightarrow> unit reply \<Rightarrow> unit io" where
  "start_recording measurement_type r1 t r2 =
     io_bind io_get (\<lambda>self.
     if \<not> connected self then io_raise (ConnectionError ''Not connected to Polar H10'')
     else
       io_try
         (io_then (io_modify (\<lambda>s. s\<lparr>data_buffer := []\<rparr>))
         (io_then (send_command REQUEST_MEASUREMENT_SETTINGS measurement_type r1)
         (io_then (await (Sleep 100) t)
         (io_then (send_command START_MEASUREMENT measurement_type r2)
         (io_then (io_modify (\<lambda>s. s\<lparr>recording := True\<rparr>))
                  (logger INFO ''Started recording measurement type: ''))))))
         (\<lambda>e. io_then (logger ERROR ''Error starting recording: '') (io_raise e)))"

definition stop_recording :: "int \<Rightarrow> unit reply \<Rightarrow> unit io" where
  "stop_recording measurement_type r =
     io_bind io_get (\<lambda>self.
     if \<not> connected self then io_raise (ConnectionError ''Not connected to Polar H10'')
     else
       io_try
         (io_then (send_command STOP_MEASUREMENT measurement_type r)
         (io_then (io_modify (\<lambda>s. s\<lparr>recording := False\<rparr>))
                  (logger INFO ''Stopped recording'')))
         (\<lambda>e. io_then (logger ERROR ''Error stopping recording: '') (io_raise e)))"

definition get_data :: "byte list io" where
  "get_data =
     io_bind io_get (\<lambda>self.
     io_then (io_modify (\<lambda>s. s\<lparr>data_buffer := []\<rparr>))
             (io_return (data_buffer self)))"

definition set_notification_callback :: "(byte list \<Rightarrow> error option) \<Rightarrow> unit io" where
  "set_notification_callback callback =
     io_modify (\<lambda>self. self\<lparr>notification_callback := Some callback\<rparr>)"

text \<open>The calls into the BLE library and the settle delay, among the effects.\<close>

fun on_wire :: "event \<Rightarrow> bool" where
  "on_wire (Log lv msg) = False"
| "on_wire (SinkCall data) = False"
| "on_wire ev = True"

definition wire :: "event list \<Rightarrow> event list" where
  "wire fx = filter on_wire fx"

text \<open>
  What a method does itself, log lines included: the effects without those of the
  handler (its debug line and the call of the callback), which the event loop runs
  while the method is suspended.
\<close>

fun from_handler :: "event \<Rightarrow> bool" where
  "from_handler (Log lv msg) = (lv = DEBUG)"
| "from_handler (SinkCall data) = True"
| "from_handler ev = False"

definition own_trace :: "event list \<Rightarrow> event list" where
  "own_trace fx = filter (\<lambda>ev. \<not> from_handler ev) fx"

section \<open>Sample inputs\<close>

text \<open>
  Devices as a scan reports them, a session with a cached device, a session with a live
  connection, and replies of the BLE library: a call that returns while the given
  chunks arrive, a call that raises with the link still up, a call that returns with
  the link down, and a finished scan. Then a callback that raises, a session that has
  it registered, a session with bytes left in the buffer, and the states a recording
  goes through.
\<close>

definition h10 :: ble_device where
  "h10 = \<lparr>address = ''A0:9E:1A:00:00:01'', name = Some ''Polar H10 ABCD123''\<rparr>"

definition unnamed :: ble_device where
  "unnamed = \<lparr>address = ''5C:F3:70:00:00:02'', name = None\<rparr>"

definition lowercase :: ble_device where
  "lowercase = \<lparr>address = ''5C:F3:70:00:00:03'', name = Some ''polar h10 lower''\<rparr>"

definition second_h10 :: ble_device where
  "second_h10 = \<lparr>address = ''A0:9E:1A:00:00:04'', name = Some ''My Polar H10''\<rparr>"

definition cached :: polar_h10 where
  "cached = init\<lparr>device := Some h10\<rparr>"

definition live :: polar_h10 where
  "live = init\<lparr>device := Some h10,
               client := Some \<lparr>target = Some h10, is_connected = True\<rparr>\<rparr>"

definition reply_ok :: "byte list list \<Rightarrow> unit reply" where
  "reply_ok chunks = \<lparr>arrived = chunks, link = True, outcome = Inr ()\<rparr>"

definition reply_failed :: "unit reply" where
  "reply_failed = \<lparr>arrived = [], link = True, outcome = Inl (BleakError ''failed'')\<rparr>"

definition reply_closed :: "unit reply" where
  "reply_closed = \<lparr>arrived = [], link = False, outcome = Inr ()\<rparr>"

definition scan_reply :: "ble_device list \<Rightarrow> ble_device list reply" where
  "scan_reply devices = \<lparr>arrived = [], link = False, outcome = Inr devices\<rparr>"

definition faulty_sink :: "byte list \<Rightarrow> error option" where
  "faulty_sink data = Some (CallbackError ''sink failed'')"

definition watched :: polar_h10 where
  "watched = self_of (set_notification_callback faulty_sink live)"

definition stale :: polar_h10 where
  "stale = live\<lparr>data_buffer := [9, 9]\<rparr>"

definition started :: polar_h10 where
  "started =
     fst (deliver [[3], [4, 5]]
       (self_of (start_recording ECG_MEASUREMENT (reply_ok []) (reply_ok []) (reply_ok [[1, 2]])
          stale)))"

definition stopped :: polar_h10 where
  "stopped =
     fst (deliver [[7]] (self_of (stop_recording ECG_MEASUREMENT (reply_ok [[6]]) started)))"

section \<open>Running the methods\<close>

lemmas io_defs = io_return_def io_raise_def io_bind_def io_then_def io_try_def io_get_def
  io_modify_def io_emit_def logger_def call_sink_def result_of_def self_of_def effects_of_def

lemmas const_defs = REQUEST_MEASUREMENT_SETTINGS_def START_MEASUREMENT_def
  STOP_MEASUREMENT_def

lemma handler_eq:
  "notification_handler sender data s =
     (case notification_callback s of
        None \<Rightarrow> Inr ()
      | Some cb \<Rightarrow> (case cb data of None \<Rightarrow> Inr () | Some e \<Rightarrow> Inl e),
      s\<lparr>data_buffer := data_buffer s @ data\<rparr>,
      Log DEBUG ''Received data: '' #
        (case notification_callback s of None \<Rightarrow> [] | Some cb \<Rightarrow> [SinkCall data]))"
  by (simp add: notification_handler_def io_defs split: option.splits)

lemmas sample_defs = h10_def unnamed_def lowercase_def second_h10_def cached_def live_def
  faulty_sink_def watched_def set_notification_callback_def
  stale_def started_def stopped_def init_def reply_ok_def reply_failed_def reply_closed_def
  scan_reply_def connected_def ECG_MEASUREMENT_def PPG_MEASUREMENT_def ACC_MEASUREMENT_def
  HR_MEASUREMENT_def struct_pack_BB_def handler_eq

lemma deliver_self:
  "fst (deliver cs s) = s\<lparr>data_buffer := data_buffer s @ concat cs\<rparr>"
  by (induction cs arbitrary: s) (simp_all add: handler_eq split_beta)

lemma deliver_wire: "wire (snd (deliver cs s)) = []"
  by (induction cs arbitrary: s)
    (simp_all add: handler_eq wire_def split_beta split: option.splits)

lemma await_eq:
  "await call r s =
     (outcome r, set_link (link r) (s\<lparr>data_buffer := data_buffer s @ concat (arrived r)\<rparr>),
      call # snd (deliver (arrived r) s))"
  by (simp add: await_def split_beta deliver_self)

lemma wire_append: "wire (xs @ ys) = wire xs @ wire ys"
  by (simp add: wire_def)

lemma wire_Cons: "wire (ev # xs) = (if on_wire ev then ev # wire xs else wire xs)"
  by (simp add: wire_def)

lemma wire_Nil: "wire [] = []"
  by (simp add: wire_def)

lemma deliver_own_trace: "own_trace (snd (deliver cs s)) = []"
  by (induction cs arbitrary: s)
    (simp_all add: handler_eq own_trace_def split_beta split: option.splits)

lemma own_trace_append: "own_trace (xs @ ys) = own_trace xs @ own_trace ys"
  by (simp add: own_trace_def)

lemma own_trace_Cons:
  "own_trace (ev # xs) = (if from_handler ev then own_trace xs else ev # own_trace xs)"
  by (simp add: own_trace_def)

lemma own_trace_Nil: "own_trace [] = []"
  by (simp add: own_trace_def)

lemmas own_trace_simps = deliver_own_trace own_trace_append own_trace_Cons own_trace_Nil

lemma own_trace_absent: "\<not> from_handler ev \<Longrightarrow> ev \<notin> set (own_trace fx) \<Longrightarrow> ev \<notin> set fx"
  by (simp add: own_trace_def)

lemma pack_ok:
  "0 \<le> a \<Longrightarrow> a \<le> 255 \<Longrightarrow> 0 \<le> b \<Longrightarrow> b \<le> 255 \<Longrightarrow>
     struct_pack_BB a b = Inr [word_of_int a, word_of_int b]"
  by (simp add: struct_pack_BB_def)

lemmas run_defs = io_defs send_command_def pack_ok const_defs await_eq split_beta set_link_def
  deliver_self wire_Cons wire_Nil wire_append deliver_wire

lemma measurement_type_range: "mt \<in> measurement_types \<Longrightarrow> 0 \<le> mt \<and> mt \<le> 255"
  by (auto simp: measurement_types_def ECG_MEASUREMENT_def PPG_MEASUREMENT_def
      ACC_MEASUREMENT_def HR_MEASUREMENT_def)

lemma command_range: "c \<in> commands \<Longrightarrow> 0 \<le> c \<and> c \<le> 255"
  by (auto simp: commands_def const_defs)

lemma connected_client: "connected s \<Longrightarrow> \<exists>cl. client s = Some cl"
  by (cases "client s") (simp_all add: connected_def)

lemma send_command_eq:
  assumes "0 \<le> c" "c \<le> 255" "0 \<le> mt" "mt \<le> 255" "client s = Some cl"
  shows "send_command c mt r s =
     (outcome r, set_link (link r) (s\<lparr>data_buffer := data_buffer s @ concat (arrived r)\<rparr>),
      WriteGattChar PMD_CONTROL [word_of_int c, word_of_int mt] # snd (deliver (arrived r) s))"
  using assms by (simp add: send_command_def pack_ok io_defs await_eq)

lemma get_data_eq: "get_data s = (Inr (data_buffer s), s\<lparr>data_buffer := []\<rparr>, [])"
  by (simp add: get_data_def io_defs)

lemma start_recording_ok_buffer:
  assumes "result_of (start_recording mt r1 t r2 s) = Inr ()"
  shows "data_buffer (self_of (start_recording mt r1 t r2 s)) =
           concat (arrived r1 @ arrived t @ arrived r2)"
  using assms
  by (simp add: start_recording_def io_defs send_command_def struct_pack_BB_def await_eq
      split_beta set_link_def split: if_splits sum.splits option.splits)

lemma stop_recording_ok_buffer:
  assumes "result_of (stop_recording mt r s) = Inr ()"
  shows "data_buffer (self_of (stop_recording mt r s)) = data_buffer s @ concat (arrived r)"
  using assms
  by (simp add: stop_recording_def io_defs send_command_def struct_pack_BB_def await_eq
      split_beta set_link_def split: if_splits sum.splits option.splits)

lemma str_contains_sublist: "str_contains sub s \<longleftrightarrow> sublist sub s"
  by (induction s) (simp_all add: sublist_Cons_right)

lemma is_polar_iff: "is_polar d \<longleftrightarrow> (\<exists>n. name d = Some n \<and> sublist ''Polar H10'' n)"
  by (cases "name d") (auto simp: is_polar_def str_contains_sublist)

lemma find_polar_first:
  "ds = pre @ d # post \<Longrightarrow> is_polar d \<Longrightarrow> \<forall>x\<in>set pre. \<not> is_polar x \<Longrightarrow>
     find_polar ds = Some d"
  by (induction pre arbitrary: ds) simp_all

lemma find_polar_none: "\<forall>x\<in>set ds. \<not> is_polar x \<Longrightarrow> find_polar ds = None"
  by (induction ds) simp_all

lemma scan_for_device_run:
  assumes "outcome scan = Inr devices"
  shows "result_of (scan_for_device scan s) = Inr (find_polar devices \<noteq> None)
       \<and> device (self_of (scan_for_device scan s)) =
           (case find_polar devices of None \<Rightarrow> device s | Some d \<Rightarrow> Some d)"
  using assms
  by (simp add: scan_for_device_def io_defs await_eq split_beta set_link_def
      split: option.splits)

section \<open>Notification buffer\<close>

text \<open>
  C1: after a successful \<open>start_recording\<close>, \<open>get_data\<close> called after a successful
  \<open>stop_recording\<close> returns exactly the concatenation, in arrival order, of the chunks
  that were delivered since \<open>start_recording\<close> cleared the buffer: those that arrived
  while \<open>start_recording\<close> was suspended in its three awaits, those delivered between
  the two calls, those that arrived while \<open>stop_recording\<close> was suspended, and those
  delivered before \<open>get_data\<close>. Whatever the buffer held before the session is gone.
  \<open>get_data\<close> clears the buffer: called again at once it returns the empty sequence.
\<close>

theorem get_data_returns_session_chunks:
  assumes "result_of (start_recording mt r1 t r2 s0) = Inr ()"
    and "s1 = fst (deliver between (self_of (start_recording mt r1 t r2 s0)))"
    and "result_of (stop_recording mt' r3 s1) = Inr ()"
    and "s2 = fst (deliver after (self_of (stop_recording mt' r3 s1)))"
  shows "result_of (get_data s2) =
           Inr (concat (arrived r1 @ arrived t @ arrived r2 @ between @ arrived r3 @ after))
       \<and> result_of (get_data (self_of (get_data s2))) = Inr []"
  using start_recording_ok_buffer [OF assms(1)] stop_recording_ok_buffer [OF assms(3)] assms(2,4)
  by (simp add: get_data_eq deliver_self result_of_def self_of_def)

theorem get_data_returns_session_chunks_witness:
  "result_of (start_recording ECG_MEASUREMENT (reply_ok []) (reply_ok []) (reply_ok [[1, 2]])
      stale) = Inr ()
 \<and> result_of (stop_recording ECG_MEASUREMENT (reply_ok [[6]]) started) = Inr ()
 \<and> result_of (get_data stopped) = Inr [1, 2, 3, 4, 5, 6, 7]
 \<and> result_of (get_data (self_of (get_data stopped))) = Inr []"
proof -
  have a: "result_of (start_recording ECG_MEASUREMENT (reply_ok []) (reply_ok [])
      (reply_ok [[1, 2]]) stale) = Inr ()"
    by (simp add: start_recording_def run_defs sample_defs)
  have b: "result_of (stop_recording ECG_MEASUREMENT (reply_ok [[6]]) started) = Inr ()"
    by (simp add: start_recording_def stop_recording_def run_defs sample_defs)
  show ?thesis
    using a b get_data_returns_session_chunks [OF a started_def b stopped_def]
    by (simp add: reply_ok_def)
qed

text \<open>
  C10: the handler appends the bytes and calls the registered callback whatever the
  recording flag is, and leaves the flag alone. So chunks delivered in any state, before
  any \<open>start_recording\<close> or after a \<open>stop_recording\<close>, are part of what the next
  \<open>get_data\<close> returns.
\<close>

theorem notification_handler_unconditional:
  "data_buffer (self_of (notification_handler sender data s)) = data_buffer s @ data
 \<and> recording (self_of (notification_handler sender data s)) = recording s
 \<and> effects_of (notification_handler sender data s) =
      Log DEBUG ''Received data: '' #
      (case notification_callback s of None \<Rightarrow> [] | Some cb \<Rightarrow> [SinkCall data])
 \<and> result_of (get_data (fst (deliver chunks s))) = Inr (data_buffer s @ concat chunks)
 \<and> result_of (get_data (fst (deliver chunks init))) = Inr (concat chunks)
 \<and> (result_of (stop_recording mt r s) = Inr () \<longrightarrow>
      result_of (get_data (fst (deliver chunks (self_of (stop_recording mt r s))))) =
        Inr (data_buffer s @ concat (arrived r) @ concat chunks))"
  using stop_recording_ok_buffer [of mt r s]
  by (simp add: handler_eq get_data_eq deliver_self result_of_def self_of_def effects_of_def
      init_def)

theorem notification_handler_unconditional_witness:
  "\<not> recording live
 \<and> result_of (stop_recording ECG_MEASUREMENT (reply_ok []) live) = Inr ()
 \<and> data_buffer (self_of (notification_handler 0 [1, 2] live)) = [1, 2]
 \<and> \<not> recording watched
 \<and> data_buffer (self_of (notification_handler 0 [1, 2] watched)) = [1, 2]
 \<and> effects_of (notification_handler 0 [1, 2] watched) =
     [Log DEBUG ''Received data: '', SinkCall [1, 2]]
 \<and> result_of (get_data (fst (deliver [[1], [2, 3]]
      (self_of (stop_recording ECG_MEASUREMENT (reply_ok []) live))))) = Inr [1, 2, 3]"
proof -
  have a: "result_of (stop_recording ECG_MEASUREMENT (reply_ok []) live) = Inr ()"
    by (simp add: stop_recording_def run_defs sample_defs)
  have b: "\<not> recording live" "\<not> recording watched"
    "notification_callback watched = Some faulty_sink" "data_buffer watched = []"
    by (simp_all add: live_def watched_def init_def set_notification_callback_def io_defs)
  show ?thesis
    using a b
      notification_handler_unconditional
        [of 0 "[1, 2]" live "[[1], [2, 3]]" ECG_MEASUREMENT "reply_ok []"]
      notification_handler_unconditional [of 0 "[1, 2]" watched]
    by (simp add: live_def init_def reply_ok_def)
qed

section \<open>Control-point commands\<close>

text \<open>
  C3: for each of the three commands and each of the four measurement types,
  \<open>_send_command\<close> on a session that has a client issues exactly one write, to the
  control-point characteristic, of exactly two bytes: the command byte first, the
  measurement-type byte second.
\<close>

theorem send_command_payload:
  assumes "command \<in> commands" and "mt \<in> measurement_types" and "client s = Some cl"
  shows "\<exists>b1 b2.
           wire (effects_of (send_command command mt r s)) =
             [WriteGattChar PMD_CONTROL [b1, b2]]
         \<and> uint b1 = command \<and> uint b2 = mt"
proof -
  from assms(1) have c: "0 \<le> command" "command \<le> 255" using command_range by auto
  from assms(2) have m: "0 \<le> mt" "mt \<le> 255" using measurement_type_range by auto
  have "wire (effects_of (send_command command mt r s)) =
          [WriteGattChar PMD_CONTROL [word_of_int command, word_of_int mt]]"
    using send_command_eq [OF c m assms(3)] deliver_wire [of "arrived r" s]
    by (simp add: effects_of_def wire_def)
  moreover have "uint (word_of_int command :: byte) = command"
    using c by (simp add: uint_word_of_int)
  moreover have "uint (word_of_int mt :: byte) = mt"
    using m by (simp add: uint_word_of_int)
  ultimately show ?thesis by simp
qed

theorem send_command_payload_witness:
  "STOP_MEASUREMENT \<in> commands \<and> ACC_MEASUREMENT \<in> measurement_types
 \<and> client live = Some \<lparr>target = Some h10, is_connected = True\<rparr>
 \<and> wire (effects_of (send_command STOP_MEASUREMENT ACC_MEASUREMENT (reply_ok []) live)) =
      [WriteGattChar PMD_CONTROL [0x03, 0x02]]"
proof -
  have a: "STOP_MEASUREMENT \<in> commands"
    by (simp add: commands_def)
  have b: "ACC_MEASUREMENT \<in> measurement_types"
    by (simp add: measurement_types_def)
  have c: "client live = Some \<lparr>target = Some h10, is_connected = True\<rparr>"
    by (simp add: live_def)
  obtain b1 b2 :: byte where
    w: "wire (effects_of (send_command STOP_MEASUREMENT ACC_MEASUREMENT (reply_ok []) live)) =
          [WriteGattChar PMD_CONTROL [b1, b2]]"
    and v: "uint b1 = STOP_MEASUREMENT" "uint b2 = ACC_MEASUREMENT"
    using send_command_payload [OF a b c, of "reply_ok []"] by blast
  from v have "uint b1 = uint (0x03 :: byte)" "uint b2 = uint (0x02 :: byte)"
    by (simp_all add: STOP_MEASUREMENT_def ACC_MEASUREMENT_def)
  then have "b1 = 0x03" "b2 = 0x02"
    by (simp_all only: word_uint_eq_iff)
  with a b c w show ?thesis by simp
qed

section \<open>Recording\<close>

text \<open>
  C2: on a connected session and for each measurement type, \<open>start_recording\<close> clears
  the buffer, writes REQUEST_MEASUREMENT_SETTINGS, sleeps 100 ms, writes
  START_MEASUREMENT and sets the recording flag, in this order: after a successful call
  the buffer holds only what arrived during the three awaits. A failure of any of the
  three awaited steps ends the sequence there, is re-raised to the caller unchanged, and
  leaves the recording flag as it was (so false if it was false).
\<close>

theorem start_recording_sequence:
  assumes conn: "connected s" and mt: "mt \<in> measurement_types"
  shows
    "(outcome r1 = Inr () \<and> outcome t = Inr () \<and> outcome r2 = Inr () \<longrightarrow>
        result_of (start_recording mt r1 t r2 s) = Inr ()
      \<and> recording (self_of (start_recording mt r1 t r2 s))
      \<and> data_buffer (self_of (start_recording mt r1 t r2 s)) =
          concat (arrived r1 @ arrived t @ arrived r2)
      \<and> wire (effects_of (start_recording mt r1 t r2 s)) =
          [WriteGattChar PMD_CONTROL [0x01, word_of_int mt], Sleep 100,
           WriteGattChar PMD_CONTROL [0x02, word_of_int mt]])
   \<and> (outcome r1 = Inl e \<longrightarrow>
        result_of (start_recording mt r1 t r2 s) = Inl e
      \<and> recording (self_of (start_recording mt r1 t r2 s)) = recording s
      \<and> data_buffer (self_of (start_recording mt r1 t r2 s)) = concat (arrived r1)
      \<and> wire (effects_of (start_recording mt r1 t r2 s)) =
          [WriteGattChar PMD_CONTROL [0x01, word_of_int mt]])
   \<and> (outcome r1 = Inr () \<and> outcome t = Inl e \<longrightarrow>
        result_of (start_recording mt r1 t r2 s) = Inl e
      \<and> recording (self_of (start_recording mt r1 t r2 s)) = recording s
      \<and> data_buffer (self_of (start_recording mt r1 t r2 s)) =
          concat (arrived r1 @ arrived t)
      \<and> wire (effects_of (start_recording mt r1 t r2 s)) =
          [WriteGattChar PMD_CONTROL [0x01, word_of_int mt], Sleep 100])
   \<and> (outcome r1 = Inr () \<and> outcome t = Inr () \<and> outcome r2 = Inl e \<longrightarrow>
        result_of (start_recording mt r1 t r2 s) = Inl e
      \<and> recording (self_of (start_recording mt r1 t r2 s)) = recording s
      \<and> data_buffer (self_of (start_recording mt r1 t r2 s)) =
          concat (arrived r1 @ arrived t @ arrived r2)
      \<and> wire (effects_of (start_recording mt r1 t r2 s)) =
          [WriteGattChar PMD_CONTROL [0x01, word_of_int mt], Sleep 100,
           WriteGattChar PMD_CONTROL [0x02, word_of_int mt]])"
proof -
  from mt have m: "0 \<le> mt" "mt \<le> 255" using measurement_type_range by auto
  from conn obtain cl where cl: "client s = Some cl" using connected_client by blast
  show ?thesis
    using conn m cl by (simp add: start_recording_def run_defs)
qed

theorem start_recording_sequence_witness:
  "connected stale \<and> HR_MEASUREMENT \<in> measurement_types \<and> \<not> recording stale
 \<and> result_of (start_recording HR_MEASUREMENT (reply_ok [[1]]) (reply_ok [[2]]) (reply_ok [])
      stale) = Inr ()
 \<and> recording (self_of (start_recording HR_MEASUREMENT (reply_ok [[1]]) (reply_ok [[2]])
      (reply_ok []) stale))
 \<and> data_buffer (self_of (start_recording HR_MEASUREMENT (reply_ok [[1]]) (reply_ok [[2]])
      (reply_ok []) stale)) = [1, 2]
 \<and> wire (effects_of (start_recording HR_MEASUREMENT (reply_ok [[1]]) (reply_ok [[2]])
      (reply_ok []) stale)) =
      [WriteGattChar PMD_CONTROL [0x01, 0x03], Sleep 100, WriteGattChar PMD_CONTROL [0x02, 0x03]]
 \<and> result_of (start_recording HR_MEASUREMENT reply_failed (reply_ok []) (reply_ok []) stale) =
      Inl (BleakError ''failed'')
 \<and> \<not> recording (self_of (start_recording HR_MEASUREMENT reply_failed (reply_ok [])
      (reply_ok []) stale))
 \<and> wire (effects_of (start_recording HR_MEASUREMENT reply_failed (reply_ok []) (reply_ok [])
      stale)) = [WriteGattChar PMD_CONTROL [0x01, 0x03]]
 \<and> result_of (start_recording HR_MEASUREMENT (reply_ok []) reply_failed (reply_ok []) stale) =
      Inl (BleakError ''failed'')
 \<and> \<not> recording (self_of (start_recording HR_MEASUREMENT (reply_ok []) reply_failed
      (reply_ok []) stale))
 \<and> result_of (start_recording HR_MEASUREMENT (reply_ok []) (reply_ok []) reply_failed stale) =
      Inl (BleakError ''failed'')
 \<and> \<not> recording (self_of (start_recording HR_MEASUREMENT (reply_ok []) (reply_ok [])
      reply_failed stale))"
proof -
  have a: "connected stale"
    by (simp add: sample_defs)
  have b: "HR_MEASUREMENT \<in> measurement_types"
    by (simp add: measurement_types_def)
  have c: "\<not> recording stale"
    by (simp add: sample_defs)
  show ?thesis
    using a b c
      start_recording_sequence [OF a b, of "reply_ok [[1]]" "reply_ok [[2]]" "reply_ok []"]
      start_recording_sequence [OF a b, of reply_failed _ _ "BleakError ''failed''"]
      start_recording_sequence [OF a b, of "reply_ok []" reply_failed _ "BleakError ''failed''"]
      start_recording_sequence
        [OF a b, of "reply_ok []" "reply_ok []" reply_failed "BleakError ''failed''"]
    by (simp add: reply_ok_def reply_failed_def HR_MEASUREMENT_def)
qed

text \<open>
  C9: \<open>start_recording\<close> on a session that is not connected (no client, or a client
  whose \<open>is_connected\<close> is false) raises \<open>ConnectionError\<close> and nothing else happens:
  no effect is issued and the whole state, buffer and recording flag included, is as
  before.
\<close>

theorem start_recording_not_connected:
  "\<not> connected s \<Longrightarrow>
     start_recording mt r1 t r2 s = (Inl (ConnectionError ''Not connected to Polar H10''), s, [])"
  by (simp add: start_recording_def io_defs)

theorem start_recording_not_connected_witness:
  "\<not> connected (cached\<lparr>data_buffer := [7], recording := True\<rparr>)
 \<and> start_recording ECG_MEASUREMENT (reply_ok []) (reply_ok []) (reply_ok [])
      (cached\<lparr>data_buffer := [7], recording := True\<rparr>) =
    (Inl (ConnectionError ''Not connected to Polar H10''),
     cached\<lparr>data_buffer := [7], recording := True\<rparr>, [])"
proof -
  have a: "\<not> connected (cached\<lparr>data_buffer := [7], recording := True\<rparr>)"
    by (simp add: sample_defs)
  show ?thesis
    using a start_recording_not_connected [OF a] by simp
qed

text \<open>
  C7 (as the code has it): \<open>stop_recording\<close> on a session that is not connected raises
  \<open>ConnectionError\<close> and changes nothing. On a connected session it writes
  STOP_MEASUREMENT; when the write succeeds the recording flag is false afterwards,
  whatever it was before; when the write raises, the exception is re-raised and the flag
  keeps the value it had.
\<close>

theorem stop_recording_flag:
  "(\<not> connected s \<longrightarrow>
      stop_recording mt r s = (Inl (ConnectionError ''Not connected to Polar H10''), s, []))
 \<and> (connected s \<and> mt \<in> measurement_types \<and> outcome r = Inr () \<longrightarrow>
      result_of (stop_recording mt r s) = Inr ()
    \<and> wire (effects_of (stop_recording mt r s)) =
        [WriteGattChar PMD_CONTROL [0x03, word_of_int mt]]
    \<and> \<not> recording (self_of (stop_recording mt r s)))
 \<and> (connected s \<and> mt \<in> measurement_types \<and> outcome r = Inl e \<longrightarrow>
      result_of (stop_recording mt r s) = Inl e
    \<and> wire (effects_of (stop_recording mt r s)) =
        [WriteGattChar PMD_CONTROL [0x03, word_of_int mt]]
    \<and> recording (self_of (stop_recording mt r s)) = recording s)"
proof (cases "connected s \<and> mt \<in> measurement_types")
  case True
  then have m: "0 \<le> mt" "mt \<le> 255" using measurement_type_range by auto
  from True obtain cl where cl: "client s = Some cl" using connected_client by blast
  show ?thesis
    using True m cl by (simp add: stop_recording_def run_defs)
next
  case False
  then show ?thesis
    by (auto simp add: stop_recording_def io_defs)
qed

theorem stop_recording_flag_witness:
  "\<not> connected cached
 \<and> stop_recording ECG_MEASUREMENT (reply_ok []) cached =
     (Inl (ConnectionError ''Not connected to Polar H10''), cached, [])
 \<and> connected (live\<lparr>recording := True\<rparr>) \<and> connected live
 \<and> PPG_MEASUREMENT \<in> measurement_types
 \<and> result_of (stop_recording PPG_MEASUREMENT (reply_ok []) (live\<lparr>recording := True\<rparr>)) = Inr ()
 \<and> \<not> recording (self_of (stop_recording PPG_MEASUREMENT (reply_ok [])
      (live\<lparr>recording := True\<rparr>)))
 \<and> \<not> recording (self_of (stop_recording PPG_MEASUREMENT (reply_ok []) live))
 \<and> wire (effects_of (stop_recording PPG_MEASUREMENT (reply_ok []) live)) =
      [WriteGattChar PMD_CONTROL [0x03, 0x01]]
 \<and> result_of (stop_recording PPG_MEASUREMENT reply_failed (live\<lparr>recording := True\<rparr>)) =
      Inl (BleakError ''failed'')
 \<and> recording (self_of (stop_recording PPG_MEASUREMENT reply_failed
      (live\<lparr>recording := True\<rparr>)))"
proof -
  have a: "\<not> connected cached"
    by (simp add: sample_defs)
  have b: "connected (live\<lparr>recording := True\<rparr>)" "connected live"
    by (simp_all add: sample_defs)
  have c: "PPG_MEASUREMENT \<in> measurement_types"
    by (simp add: measurement_types_def)
  show ?thesis
    using a b c
      stop_recording_flag [of cached ECG_MEASUREMENT "reply_ok []"]
      stop_recording_flag [of "live\<lparr>recording := True\<rparr>" PPG_MEASUREMENT "reply_ok []"]
      stop_recording_flag [of live PPG_MEASUREMENT "reply_ok []"]
      stop_recording_flag [of "live\<lparr>recording := True\<rparr>" PPG_MEASUREMENT reply_failed
        "BleakError ''failed''"]
    by (simp add: reply_ok_def reply_failed_def PPG_MEASUREMENT_def live_def init_def)
qed

text \<open>
  C7 as stated fails: on a connected session whose recording flag is set, a
  \<open>stop_recording\<close> whose write raises leaves the flag set.
\<close>

theorem stop_recording_flag_counterexample:
  "connected (live\<lparr>recording := True\<rparr>)
 \<and> result_of (stop_recording ECG_MEASUREMENT reply_failed (live\<lparr>recording := True\<rparr>)) =
     Inl (BleakError ''failed'')
 \<and> recording (self_of (stop_recording ECG_MEASUREMENT reply_failed (live\<lparr>recording := True\<rparr>)))"
  by (simp add: stop_recording_def run_defs sample_defs)

section \<open>Connection life cycle\<close>

text \<open>
  C5: \<open>disconnect\<close> never raises, whatever the state and whatever the BLE library
  answers, so neither does a second call right after the first. On a session that is not
  connected (never connected, or already disconnected) it does nothing at all. When the
  unsubscribe or the close raises, the last thing it does is log the error.
\<close>

theorem disconnect_never_raises:
  "result_of (disconnect rs rd s) = Inr ()
 \<and> result_of (disconnect rs' rd' (self_of (disconnect rs rd s))) = Inr ()
 \<and> (\<not> connected s \<longrightarrow> disconnect rs rd s = (Inr (), s, []))
 \<and> (connected s \<and> outcome rs = Inl e \<longrightarrow>
      last (effects_of (disconnect rs rd s)) = Log ERROR ''Error during disconnect: '')
 \<and> (connected s \<and> outcome rs = Inr () \<and> outcome rd = Inl e \<longrightarrow>
      last (effects_of (disconnect rs rd s)) = Log ERROR ''Error during disconnect: '')"
  by (simp add: disconnect_def io_defs await_eq split_beta split: sum.splits)

theorem disconnect_never_raises_witness:
  "\<not> connected init \<and> disconnect (reply_ok []) reply_closed init = (Inr (), init, [])
 \<and> connected live
 \<and> result_of (disconnect (reply_ok []) reply_closed live) = Inr ()
 \<and> \<not> connected (self_of (disconnect (reply_ok []) reply_closed live))
 \<and> disconnect (reply_ok []) reply_closed (self_of (disconnect (reply_ok []) reply_closed live)) =
     (Inr (), self_of (disconnect (reply_ok []) reply_closed live), [])
 \<and> result_of (disconnect reply_failed reply_closed live) = Inr ()
 \<and> last (effects_of (disconnect reply_failed reply_closed live)) =
     Log ERROR ''Error during disconnect: ''
 \<and> result_of (disconnect (reply_ok []) reply_failed live) = Inr ()
 \<and> last (effects_of (disconnect (reply_ok []) reply_failed live)) =
     Log ERROR ''Error during disconnect: ''"
proof -
  have a: "\<not> connected init" "connected live"
    by (simp_all add: sample_defs)
  have b: "\<not> connected (self_of (disconnect (reply_ok []) reply_closed live))"
    by (simp add: disconnect_def run_defs sample_defs)
  show ?thesis
    using a b
      disconnect_never_raises [of "reply_ok []" reply_closed init]
      disconnect_never_raises [of "reply_ok []" reply_closed live]
      disconnect_never_raises
        [of "reply_ok []" reply_closed "self_of (disconnect (reply_ok []) reply_closed live)"]
      disconnect_never_raises [of reply_failed reply_closed live _ _ "BleakError ''failed''"]
      disconnect_never_raises [of "reply_ok []" reply_failed live _ _ "BleakError ''failed''"]
    by (simp add: reply_ok_def reply_failed_def)
qed

text \<open>
  C6: on a live connection, when the unsubscribe raises, \<open>disconnect\<close> logs the error
  and returns: the close of the transport connection, which stands after the
  unsubscribe inside the same \<open>try\<close>, is never issued, and the link stays up.
\<close>

theorem disconnect_skips_close:
  "connected live
 \<and> effects_of (disconnect reply_failed reply_closed live) =
     [StopNotify PMD_DATA, Log ERROR ''Error during disconnect: '']
 \<and> ClientDisconnect \<notin> set (effects_of (disconnect reply_failed reply_closed live))
 \<and> result_of (disconnect reply_failed reply_closed live) = Inr ()
 \<and> connected (self_of (disconnect reply_failed reply_closed live))"
  by (simp add: disconnect_def run_defs sample_defs)

text \<open>
  C4 (as the code has it): with a device at hand (cached, or found by the scan), when
  the transport connection or the subscription raises, \<open>connect\<close> logs the error and
  returns \<open>False\<close>. It tears nothing down: the error line is the last thing it does,
  it issues no \<open>stop_notify\<close> and no \<open>disconnect\<close>, the new client stays in
  \<open>self.client\<close>, and \<open>is_connected\<close> is what the failed step left.
\<close>

theorem connect_failure_no_teardown:
  assumes "device s = Some d
         \<or> (device s = None \<and> outcome scan = Inr devices \<and> find_polar devices = Some d)"
  shows "(outcome rc = Inl e \<longrightarrow>
            result_of (connect scan rc rn s) = Inr False
          \<and> own_trace (effects_of (connect scan rc rn s)) =
              (if device s = None
               then [Log INFO ''Scanning for Polar H10...'', Discover,
                     Log INFO ''Found Polar H10: '']
               else []) @
              [ClientConnect, Log ERROR ''Error connecting to device: '']
          \<and> ClientDisconnect \<notin> set (effects_of (connect scan rc rn s))
          \<and> StopNotify PMD_DATA \<notin> set (effects_of (connect scan rc rn s))
          \<and> client (self_of (connect scan rc rn s)) =
              Some \<lparr>target = Some d, is_connected = link rc\<rparr>)
       \<and> (outcome rc = Inr () \<and> outcome rn = Inl e \<longrightarrow>
            result_of (connect scan rc rn s) = Inr False
          \<and> own_trace (effects_of (connect scan rc rn s)) =
              (if device s = None
               then [Log INFO ''Scanning for Polar H10...'', Discover,
                     Log INFO ''Found Polar H10: '']
               else []) @
              [ClientConnect, Log INFO ''Connected to Polar H10'', StartNotify PMD_DATA,
               Log ERROR ''Error connecting to device: '']
          \<and> ClientDisconnect \<notin> set (effects_of (connect scan rc rn s))
          \<and> StopNotify PMD_DATA \<notin> set (effects_of (connect scan rc rn s))
          \<and> client (self_of (connect scan rc rn s)) =
              Some \<lparr>target = Some d, is_connected = link rn\<rparr>)"
proof -
  have run:
    "(outcome rc = Inl e \<longrightarrow>
        result_of (connect scan rc rn s) = Inr False
      \<and> own_trace (effects_of (connect scan rc rn s)) =
          (if device s = None
           then [Log INFO ''Scanning for Polar H10...'', Discover,
                 Log INFO ''Found Polar H10: '']
           else []) @
          [ClientConnect, Log ERROR ''Error connecting to device: '']
      \<and> client (self_of (connect scan rc rn s)) =
          Some \<lparr>target = Some d, is_connected = link rc\<rparr>)
   \<and> (outcome rc = Inr () \<and> outcome rn = Inl e \<longrightarrow>
        result_of (connect scan rc rn s) = Inr False
      \<and> own_trace (effects_of (connect scan rc rn s)) =
          (if device s = None
           then [Log INFO ''Scanning for Polar H10...'', Discover,
                 Log INFO ''Found Polar H10: '']
           else []) @
          [ClientConnect, Log INFO ''Connected to Polar H10'', StartNotify PMD_DATA,
           Log ERROR ''Error connecting to device: '']
      \<and> client (self_of (connect scan rc rn s)) =
          Some \<lparr>target = Some d, is_connected = link rn\<rparr>)"
    using assms
  proof (elim disjE conjE)
    assume "device s = Some d"
    then show ?thesis
      by (simp add: connect_def run_defs own_trace_simps BleakClient_def)
  next
    assume "device s = None" "outcome scan = Inr devices" "find_polar devices = Some d"
    then show ?thesis
      by (simp add: connect_def scan_for_device_def run_defs own_trace_simps BleakClient_def)
  qed
  have absent: "ClientDisconnect \<notin> set fx" "StopNotify PMD_DATA \<notin> set fx"
    if "own_trace fx =
          (if device s = None
           then [Log INFO ''Scanning for Polar H10...'', Discover,
                 Log INFO ''Found Polar H10: '']
           else []) @ tl"
      and "ClientDisconnect \<notin> set tl" and "StopNotify PMD_DATA \<notin> set tl"
    for fx tl
    using that own_trace_absent [of ClientDisconnect fx]
      own_trace_absent [of "StopNotify PMD_DATA" fx]
    by (simp_all split: if_splits)
  show ?thesis
    using run
      absent [of "effects_of (connect scan rc rn s)"
        "[ClientConnect, Log ERROR ''Error connecting to device: '']"]
      absent [of "effects_of (connect scan rc rn s)"
        "[ClientConnect, Log INFO ''Connected to Polar H10'', StartNotify PMD_DATA,
          Log ERROR ''Error connecting to device: '']"]
    by simp
qed

theorem connect_failure_no_teardown_witness:
  "device cached = Some h10
 \<and> result_of (connect (scan_reply []) reply_failed (reply_ok []) cached) = Inr False
 \<and> own_trace (effects_of (connect (scan_reply []) reply_failed (reply_ok []) cached)) =
     [ClientConnect, Log ERROR ''Error connecting to device: '']
 \<and> ClientDisconnect \<notin> set (effects_of (connect (scan_reply []) reply_failed (reply_ok []) cached))
 \<and> device init = None \<and> find_polar [unnamed, h10] = Some h10
 \<and> result_of (connect (scan_reply [unnamed, h10]) (reply_ok [[1]]) reply_failed init) =
     Inr False
 \<and> own_trace (effects_of (connect (scan_reply [unnamed, h10]) (reply_ok [[1]]) reply_failed
      init)) =
     [Log INFO ''Scanning for Polar H10...'', Discover, Log INFO ''Found Polar H10: '',
      ClientConnect, Log INFO ''Connected to Polar H10'', StartNotify PMD_DATA,
      Log ERROR ''Error connecting to device: '']
 \<and> ClientDisconnect \<notin> set (effects_of (connect (scan_reply [unnamed, h10]) (reply_ok [[1]])
      reply_failed init))
 \<and> StopNotify PMD_DATA \<notin> set (effects_of (connect (scan_reply [unnamed, h10]) (reply_ok [[1]])
      reply_failed init))
 \<and> client (self_of (connect (scan_reply [unnamed, h10]) (reply_ok [[1]]) reply_failed init)) =
     Some \<lparr>target = Some h10, is_connected = True\<rparr>"
proof -
  have a: "device cached = Some h10"
    by (simp add: sample_defs)
  have b: "device init = None" "outcome (scan_reply [unnamed, h10]) = Inr [unnamed, h10]"
    "find_polar [unnamed, h10] = Some h10"
    by (simp_all add: sample_defs is_polar_def)
  show ?thesis
    using a b
      connect_failure_no_teardown [of cached h10 "scan_reply []" "[]" reply_failed
        "BleakError ''failed''" "reply_ok []"]
      connect_failure_no_teardown [of init h10 "scan_reply [unnamed, h10]" "[unnamed, h10]"
        "reply_ok [[1]]" "BleakError ''failed''" reply_failed]
    by (simp add: reply_ok_def reply_failed_def)
qed

text \<open>
  C4 as stated fails: with a cached device, a transport connection that succeeds and a
  subscription that raises, \<open>connect\<close> returns \<open>False\<close> without closing the
  connection it opened.
\<close>

theorem connect_teardown_counterexample:
  "result_of (connect (scan_reply []) (reply_ok []) reply_failed cached) = Inr False
 \<and> effects_of (connect (scan_reply []) (reply_ok []) reply_failed cached) =
     [ClientConnect, Log INFO ''Connected to Polar H10'', StartNotify PMD_DATA,
      Log ERROR ''Error connecting to device: '']
 \<and> ClientDisconnect \<notin> set (effects_of (connect (scan_reply []) (reply_ok []) reply_failed cached))
 \<and> connected (self_of (connect (scan_reply []) (reply_ok []) reply_failed cached))"
  by (simp add: connect_def run_defs BleakClient_def sample_defs)

section \<open>Discovery\<close>

text \<open>
  C8: for every list of devices a scan returns, \<open>scan_for_device\<close> picks the first
  device, in scan order, whose advertised name contains \<open>Polar H10\<close> as a contiguous,
  case-sensitive substring: it stores that device and returns \<open>True\<close>. When no device
  of the list has such a name it returns \<open>False\<close> and stores nothing.
\<close>

theorem scan_for_device_first_match:
  assumes "outcome scan = Inr devices"
  shows "(devices = pre @ d # post
          \<and> (\<exists>n. name d = Some n \<and> sublist ''Polar H10'' n)
          \<and> (\<forall>x\<in>set pre. \<not> (\<exists>n. name x = Some n \<and> sublist ''Polar H10'' n))
          \<longrightarrow> result_of (scan_for_device scan s) = Inr True
            \<and> device (self_of (scan_for_device scan s)) = Some d)
       \<and> ((\<forall>x\<in>set devices. \<not> (\<exists>n. name x = Some n \<and> sublist ''Polar H10'' n))
          \<longrightarrow> result_of (scan_for_device scan s) = Inr False
            \<and> device (self_of (scan_for_device scan s)) = device s)"
proof (intro conjI impI)
  assume h: "devices = pre @ d # post
          \<and> (\<exists>n. name d = Some n \<and> sublist ''Polar H10'' n)
          \<and> (\<forall>x\<in>set pre. \<not> (\<exists>n. name x = Some n \<and> sublist ''Polar H10'' n))"
  then have "find_polar devices = Some d"
    using find_polar_first [of devices pre d post] by (simp add: is_polar_iff)
  then show "result_of (scan_for_device scan s) = Inr True"
    and "device (self_of (scan_for_device scan s)) = Some d"
    using scan_for_device_run [OF assms, of s] by simp_all
next
  assume "\<forall>x\<in>set devices. \<not> (\<exists>n. name x = Some n \<and> sublist ''Polar H10'' n)"
  then have "find_polar devices = None"
    using find_polar_none [of devices] by (simp add: is_polar_iff)
  then show "result_of (scan_for_device scan s) = Inr False"
    and "device (self_of (scan_for_device scan s)) = device s"
    using scan_for_device_run [OF assms, of s] by simp_all
qed

theorem scan_for_device_first_match_witness:
  "result_of (scan_for_device (scan_reply [unnamed, lowercase, h10, second_h10]) init) = Inr True
 \<and> device (self_of (scan_for_device (scan_reply [unnamed, lowercase, h10, second_h10]) init)) =
     Some h10
 \<and> result_of (scan_for_device (scan_reply [unnamed, lowercase]) init) = Inr False
 \<and> device (self_of (scan_for_device (scan_reply [unnamed, lowercase]) init)) = None"
proof -
  have a: "outcome (scan_reply [unnamed, lowercase, h10, second_h10]) =
             Inr ([unnamed, lowercase] @ h10 # [second_h10])"
    and b: "outcome (scan_reply [unnamed, lowercase]) = Inr [unnamed, lowercase]"
    by (simp_all add: scan_reply_def)
  have c: "\<exists>n. name h10 = Some n \<and> sublist ''Polar H10'' n"
    by (simp add: h10_def str_contains_sublist [symmetric])
  have d: "\<not> (\<exists>n. name unnamed = Some n \<and> sublist ''Polar H10'' n)"
    "\<not> (\<exists>n. name lowercase = Some n \<and> sublist ''Polar H10'' n)"
    by (simp_all add: unnamed_def lowercase_def str_contains_sublist [symmetric])
  have e: "device init = None"
    by (simp add: init_def)
  show ?thesis
    using c d e
      scan_for_device_first_match [OF a, of "[unnamed, lowercase]" h10 "[second_h10]" init]
      scan_for_device_first_match [OF b, of _ _ _ init]
    by simp
qed

end
